theory Spec2Isabelle
  imports Complex_Main "HOL-Library.AList" "HOL-Library.Sublist"
begin

section \<open>JavaScript values\<close>

text \<open>
  The values the guarded query builder and the static-method installer inspect with
  \<^verbatim>\<open>!x\<close>, \<^verbatim>\<open>typeof x\<close>, \<^verbatim>\<open>Array.isArray(x)\<close> and destructuring. A number is a
  rational (every finite double is one; \<open>+0\<close> and \<open>-0\<close> are both \<open>JNum 0\<close>, which
  the operations below never tell apart), \<open>NaN\<close> or an infinity. A function value is
  an ordinary function of non-strict code, made with the \<^verbatim>\<open>function\<close> keyword and
  identified by its name; an object literal is the list of its own properties.
\<close>

datatype jsval =
    JUndefined
  | JNull
  | JBool bool
  | JNum rat
  | JNaN
  | JInfinity bool
  | JBigInt int
  | JStr string
  | JSymbol string
  | JFun string
  | JArr "jsval list"
  | JObj "(string \<times> jsval) list"

text \<open>\<^verbatim>\<open>!x\<close>: the falsy values are \<open>undefined\<close>, \<open>null\<close>, \<open>false\<close>, \<open>0\<close>, \<open>NaN\<close>,
  \<open>0n\<close> and the empty string.\<close>

fun falsy :: "jsval \<Rightarrow> bool" where
  "falsy JUndefined = True"
| "falsy JNull = True"
| "falsy (JBool b) = (\<not> b)"
| "falsy (JNum r) = (r = 0)"
| "falsy JNaN = True"
| "falsy (JBigInt i) = (i = 0)"
| "falsy (JStr s) = (s = [])"
| "falsy _ = False"

fun typeof :: "jsval \<Rightarrow> string" where
  "typeof JUndefined = ''undefined''"
| "typeof JNull = ''object''"
| "typeof (JBool _) = ''boolean''"
| "typeof (JNum _) = ''number''"
| "typeof JNaN = ''number''"
| "typeof (JInfinity _) = ''number''"
| "typeof (JBigInt _) = ''bigint''"
| "typeof (JStr _) = ''string''"
| "typeof (JSymbol _) = ''symbol''"
| "typeof (JFun _) = ''function''"
| "typeof (JArr _) = ''object''"
| "typeof (JObj _) = ''object''"

fun isArray :: "jsval \<Rightarrow> bool" where
  "isArray (JArr _) = True"
| "isArray _ = False"

section \<open>Errors\<close>

text \<open>
  The error classes of \<^verbatim>\<open>utils/error\<close> as the source constructs them
  (\<^verbatim>\<open>new InvalidParamTypeError(param, expected, received)\<close>,
  \<^verbatim>\<open>new MissingParamError(param)\<close>, \<^verbatim>\<open>new BadRequestError(message)\<close>,
  \<^verbatim>\<open>new NotFoundError(message)\<close>), and the \<open>TypeError\<close> the runtime itself throws.
  A thrown error, or the rejection of an \<^verbatim>\<open>async\<close> function, is a value.
\<close>

datatype error =
    BadRequestError string
  | NotFoundError string
  | InvalidParamTypeError string string string
  | MissingParamError string
  | TypeError

section \<open>safeFindById\<close>

text \<open>
  \<^verbatim>\<open>
  async function safeFindById(id) {
    if (!Types.ObjectId.isValid(id))
      throw new BadRequestError('Invalid ID format')
    const document = await this.findById(id).exec()
    if (!document) throw new NotFoundError('Task not found')
    return document
  }
  \<close>
  The store's identifier check \<open>isValid\<close> and the model's lookup \<open>findById\<close>
  (a document, or \<open>null\<close> as \<open>None\<close>) are the collaborators, taken as parameters.
  The second component of the result lists the lookups that were executed, in order.
\<close>

definition safeFindById ::
  "(string \<Rightarrow> bool) \<Rightarrow> (string \<Rightarrow> 'doc option) \<Rightarrow> string \<Rightarrow> (error + 'doc) \<times> string list" where
  "safeFindById isValid findById id0 =
     (if \<not> isValid id0 then (Inl (BadRequestError ''Invalid ID format''), [])
      else (case findById id0 of
              None \<Rightarrow> (Inl (NotFoundError ''Task not found''), [id0])
            | Some document \<Rightarrow> (Inr document, [id0])))"

text \<open>An identifier format for the examples: 24 hexadecimal characters (the store
  defines the real one).\<close>

definition hex_digit :: "char \<Rightarrow> bool" where
  "hex_digit c = (c \<in> set ''0123456789abcdefABCDEF'')"

definition isValid_hex24 :: "string \<Rightarrow> bool" where
  "isValid_hex24 s = (length s = 24 \<and> list_all hex_digit s)"

section \<open>The query handle and its regular expressions\<close>

text \<open>
  Modelled from the spec: the query handle of the store (the \<^verbatim>\<open>mongoose\<close> library is
  an external collaborator), "the field-set being filtered, an accumulated filter
  predicate, a result-count ceiling", with \<^verbatim>\<open>where(field, pattern) -> QueryHandle\<close>
  and \<^verbatim>\<open>limit(n) -> QueryHandle\<close>.

  A \<^verbatim>\<open>RegExp\<close> object is its pattern source and its flags. The handle carries one
  pattern per path and the ceiling. \<^verbatim>\<open>this.limit(data)\<close> stores the ceiling;
  \<^verbatim>\<open>this.where(key, re)\<close> stores the pattern under the path, replacing an earlier one
  for the same path; both change the receiver and return it. \<open>find_all\<close> is
  \<^verbatim>\<open>Task.find({})\<close>.
\<close>

record regexp =
  source :: string
  flags :: string

record query =
  conditions :: "(string \<times> regexp) list"
  options_limit :: "jsval option"

definition find_all :: query where
  "find_all = \<lparr>conditions = [], options_limit = None\<rparr>"

definition Query_limit :: "query \<Rightarrow> jsval \<Rightarrow> query" where
  "Query_limit q v = q\<lparr>options_limit := Some v\<rparr>"

definition Query_where :: "query \<Rightarrow> string \<Rightarrow> regexp \<Rightarrow> query" where
  "Query_where q path re = q\<lparr>conditions := AList.update path re (conditions q)\<rparr>"

section \<open>safeLimit\<close>

text \<open>
  \<^verbatim>\<open>
  function safeLimit(n) {
    if (!n) return this
    const { success, data } = taskSchema.limit.safeParse(n)
    if (!success) throw new BadRequestError('Invalid Limit')
    return this.limit(data)
  }
  \<close>
  \<open>taskSchema.limit.safeParse\<close> is the parameter \<open>limit_safeParse\<close>: \<open>None\<close> when
  \<open>success\<close> is false, \<open>Some data\<close> otherwise. The result is the thrown error, if
  any, and the receiver as the call leaves it; a call that does not throw returns the
  receiver.
\<close>

definition safeLimit ::
  "(jsval \<Rightarrow> jsval option) \<Rightarrow> query \<Rightarrow> jsval \<Rightarrow> error option \<times> query" where
  "safeLimit limit_safeParse this n =
     (if falsy n then (None, this)
      else (case limit_safeParse n of
              None \<Rightarrow> (Some (BadRequestError ''Invalid Limit''), this)
            | Some data \<Rightarrow> (None, Query_limit this data)))"

text \<open>
  Modelled from the spec: the bounded-integer rule \<open>taskSchema.limit\<close>
  (\<^verbatim>\<open>validators/exampleSchema\<close> is not among the sources), "positive integer within
  bounds". The bound is a parameter; an accepted value is returned as it is.
\<close>

definition limit_rule :: "nat \<Rightarrow> jsval \<Rightarrow> jsval option" where
  "limit_rule bound n =
     (case n of
        JNum r \<Rightarrow> if of_int \<lfloor>r\<rfloor> = r \<and> 0 < r \<and> r \<le> of_nat bound then Some n else None
      | _ \<Rightarrow> None)"

section \<open>safeStartsWith\<close>

text \<open>
  \<^verbatim>\<open>key in Task.schema.paths\<close>. The operator \<^verbatim>\<open>in\<close> holds for the own properties
  of an object and for those it inherits. \<open>Task.schema.paths\<close> is an ordinary object
  with one own property per path of the schema, so the properties of
  \<^verbatim>\<open>Object.prototype\<close> are found in it too. A model is given by the own property
  names of its \<open>schema.paths\<close>.
\<close>

record mongoose_model =
  schema_paths :: "string list"

definition Object_prototype_properties :: "string list" where
  "Object_prototype_properties =
     [''constructor'', ''__defineGetter__'', ''__defineSetter__'', ''hasOwnProperty'',
      ''__lookupGetter__'', ''__lookupSetter__'', ''isPrototypeOf'', ''propertyIsEnumerable'',
      ''toString'', ''valueOf'', ''__proto__'', ''toLocaleString'']"

definition js_in :: "string \<Rightarrow> string list \<Rightarrow> bool" where
  "js_in key own = (key \<in> set own \<or> key \<in> set Object_prototype_properties)"

text \<open>The \<open>Task\<close> model of the source: the path \<open>TaskSchema\<close> declares
  (\<open>description\<close>) and the two paths the library adds to every schema.\<close>

definition Task :: mongoose_model where
  "Task = \<lparr>schema_paths = [''description'', ''_id'', ''__v'']\<rparr>"

text \<open>
  \<^verbatim>\<open>str.replace(/[.*+?^${}()|[\]\\]/g, '\\$&')\<close>: every character of the class is
  replaced by a backslash followed by itself.
\<close>

definition regex_meta :: "char list" where
  "regex_meta =
     [CHR ''.'', CHR ''*'', CHR ''+'', CHR ''?'', CHR ''^'', CHR ''$'', CHR ''{'', CHR ''}'',
      CHR ''('', CHR '')'', CHR ''|'', CHR ''['', CHR '']'', CHR 0x5C]"

definition escapeRegex :: "string \<Rightarrow> string" where
  "escapeRegex str = concat (map (\<lambda>c. if c \<in> set regex_meta then [CHR 0x5C, c] else [c]) str)"

text \<open>
  \<^verbatim>\<open>
  function safeStartsWith(searchParam, key, Task) {
    if (!searchParam) return this
    const { success, data } = taskSchema.searchParam.safeParse(searchParam)
    if (!success) throw new BadRequestError('Invalid searchParam')
    if (!(key in Task.schema.paths))
      throw new BadRequestError(`No Property ${key} found`)
    const escapeRegex = str => str.replace(/[.*+?^${}()|[\]\\]/g, '\\$&')
    return this.where(key, new RegExp(`^${escapeRegex(data)}`, 'i'))
  }
  \<close>
  \<open>taskSchema.searchParam.safeParse\<close> is the parameter \<open>searchParam_safeParse\<close>.
  Parsed data that is not a string has no \<open>replace\<close> method: the call throws a
  \<open>TypeError\<close>.
\<close>

definition safeStartsWith ::
  "(jsval \<Rightarrow> jsval option) \<Rightarrow> query \<Rightarrow> jsval \<Rightarrow> string \<Rightarrow> mongoose_model
     \<Rightarrow> error option \<times> query" where
  "safeStartsWith searchParam_safeParse this searchParam key Task0 =
     (if falsy searchParam then (None, this)
      else (case searchParam_safeParse searchParam of
              None \<Rightarrow> (Some (BadRequestError ''Invalid searchParam''), this)
            | Some data \<Rightarrow>
                if \<not> js_in key (schema_paths Task0)
                then (Some (BadRequestError (''No Property '' @ key @ '' found'')), this)
                else (case data of
                        JStr str \<Rightarrow>
                          (None, Query_where this key
                                   \<lparr>source = CHR ''^'' # escapeRegex str, flags = ''i''\<rparr>)
                      | _ \<Rightarrow> (Some TypeError, this))))"

text \<open>
  Modelled from the spec: the string rule \<open>taskSchema.searchParam\<close>
  (\<^verbatim>\<open>validators/exampleSchema\<close> is not among the sources). It accepts strings and
  returns them as they are.
\<close>

definition string_rule :: "jsval \<Rightarrow> jsval option" where
  "string_rule v = (case v of JStr s \<Rightarrow> Some (JStr s) | _ \<Rightarrow> None)"

section \<open>Executing a query\<close>

text \<open>
  Modelled from the spec: the regular-expression engine is an external collaborator;
  the spec asks for a "case-insensitive filter selecting records whose field value
  begins with a literal (metacharacter-escaped) string". Only the patterns the builder
  produces are given a meaning: a pattern body made of plain characters and
  backslash-escaped metacharacters denotes the literal string \<open>literal_of\<close> decodes;
  a body with a metacharacter that is not escaped, or with a backslash before anything
  else, is outside the fragment (\<open>None\<close>).
\<close>

fun literal_of :: "string \<Rightarrow> string option" where
  "literal_of [] = Some []"
| "literal_of [c] = (if c \<in> set regex_meta then None else Some [c])"
| "literal_of (c # d # ds) =
     (if c = CHR 0x5C
      then (if d \<in> set regex_meta then map_option ((#) d) (literal_of ds) else None)
      else if c \<in> set regex_meta then None
      else map_option ((#) c) (literal_of (d # ds)))"

text \<open>Modelled from the spec: "case-insensitive" is the case of the ASCII letters.\<close>

definition to_lower :: "char \<Rightarrow> char" where
  "to_lower c =
     (case map_of (zip ''ABCDEFGHIJKLMNOPQRSTUVWXYZ'' ''abcdefghijklmnopqrstuvwxyz'') c of
        Some l \<Rightarrow> l
      | None \<Rightarrow> c)"

text \<open>
  Modelled from the spec: the match of a pattern against a string (the engine's
  \<^verbatim>\<open>test\<close>), for a pattern \<open>^\<close> followed by a body of the fragment: the string
  starts with the literal, compared through \<open>to_lower\<close> when the flag \<open>i\<close> is set.
\<close>

definition regexp_test :: "regexp \<Rightarrow> string \<Rightarrow> bool option" where
  "regexp_test re v =
     (case source re of
        [] \<Rightarrow> None
      | c # body \<Rightarrow>
          if c \<noteq> CHR ''^'' then None
          else (case literal_of body of
                  None \<Rightarrow> None
                | Some lit \<Rightarrow>
                    Some (if CHR ''i'' \<in> set (flags re)
                          then prefix (map to_lower lit) (map to_lower v)
                          else prefix lit v)))"

text \<open>
  Modelled from the spec: the store's evaluation of one condition. A document is the
  list of its fields; it satisfies a condition when the field is a string the pattern
  matches.
\<close>

type_synonym document = "(string \<times> jsval) list"

definition satisfies :: "document \<Rightarrow> string \<times> regexp \<Rightarrow> bool" where
  "satisfies doc cond =
     (case map_of doc (fst cond) of
        Some (JStr v) \<Rightarrow> regexp_test (snd cond) v = Some True
      | _ \<Rightarrow> False)"

text \<open>
  Modelled from the spec: the store's \<^verbatim>\<open>exec() -> Promise<Record[]>\<close>. It returns the
  documents that satisfy every condition, in store order, cut to the ceiling when the
  ceiling is a positive integer (the only ceilings \<open>limit_rule\<close> lets through).
\<close>

definition exec :: "query \<Rightarrow> document list \<Rightarrow> document list" where
  "exec q docs =
     (let found = filter (\<lambda>doc. list_all (satisfies doc) (conditions q)) docs in
      case options_limit q of
        Some (JNum r) \<Rightarrow>
          if of_int \<lfloor>r\<rfloor> = r \<and> 0 < r then take (nat \<lfloor>r\<rfloor>) found else found
      | _ \<Rightarrow> found)"

section \<open>applyStaticMethods\<close>

text \<open>
  The schema argument is a \<^verbatim>\<open>Mongoose.Schema\<close>, or it is missing (\<open>None\<close>). A
  schema is given by its \<open>statics\<close> namespace, an ordinary object: the own properties
  of the object, a map from names to values (writable data properties; the order in
  which the engine enumerates them is not part of the state), and the prototype of the
  object. The prototype is \<^verbatim>\<open>Object.prototype\<close>, as for the \<^verbatim>\<open>{}\<close> a new schema
  starts with, or a function object that an assignment to \<open>__proto__\<close> has put in
  its place.
\<close>

datatype prototype = Object_prototype | Function_object string

record schema =
  statics :: "string \<rightharpoonup> jsval"
  statics_prototype :: prototype

text \<open>
  \<^verbatim>\<open>TaskSchema.statics[name] = fn\<close>, for a string \<open>name\<close> and a function \<open>fn\<close>, in
  non-strict code. The assignment looks the name up in the object and then along its
  prototypes, and what it does depends on the first property found:
  \<^item> an own property of the object gets the new value;
  \<^item> a read-only property of a prototype makes the assignment do nothing. No property
    of \<^verbatim>\<open>Object.prototype\<close> is read-only; of a function (of non-strict code, made
    with the \<^verbatim>\<open>function\<close> keyword, as all function values here) these are its own
    \<open>length\<close>, \<open>name\<close>, \<open>arguments\<close> and \<open>caller\<close>;
  \<^item> \<open>__proto__\<close> is an accessor of \<^verbatim>\<open>Object.prototype\<close>, which every prototype
    here inherits: the assignment calls its setter, which makes \<open>fn\<close> the prototype
    of the object and adds no property;
  \<^item> otherwise (no property found, or a writable one of a prototype) the object gets a
    new own property.
\<close>

definition inherits_read_only :: "prototype \<Rightarrow> string \<Rightarrow> bool" where
  "inherits_read_only p nm =
     (case p of
        Object_prototype \<Rightarrow> False
      | Function_object f \<Rightarrow> nm \<in> set [''length'', ''name'', ''arguments'', ''caller''])"

definition set_static :: "schema \<Rightarrow> string \<Rightarrow> string \<Rightarrow> schema" where
  "set_static S nm f =
     (if statics S nm \<noteq> None then S\<lparr>statics := (statics S)(nm \<mapsto> JFun f)\<rparr>
      else if inherits_read_only (statics_prototype S) nm then S
      else if nm = ''__proto__'' then S\<lparr>statics_prototype := Function_object f\<rparr>
      else S\<lparr>statics := (statics S)(nm \<mapsto> JFun f)\<rparr>)"

text \<open>
  \<^verbatim>\<open>const { name, fn } of methods\<close>: destructuring \<open>undefined\<close> or \<open>null\<close> throws a
  \<open>TypeError\<close> (\<open>None\<close>). An object literal yields its two properties, \<open>undefined\<close>
  for one it does not have; a function has a \<open>name\<close> and no \<open>fn\<close>; the other
  values have neither.
\<close>

definition get_property :: "(string \<times> jsval) list \<Rightarrow> string \<Rightarrow> jsval" where
  "get_property props k = (case map_of props k of Some v \<Rightarrow> v | None \<Rightarrow> JUndefined)"

fun destructure :: "jsval \<Rightarrow> (jsval \<times> jsval) option" where
  "destructure JUndefined = None"
| "destructure JNull = None"
| "destructure (JObj props) = Some (get_property props ''name'', get_property props ''fn'')"
| "destructure (JFun nm) = Some (JStr nm, JUndefined)"
| "destructure _ = Some (JUndefined, JUndefined)"

text \<open>\<^verbatim>\<open>`${Function}`\<close>: the global \<open>Function\<close> constructor, converted to a string.\<close>

definition Function_string :: string where
  "Function_string = ''function Function() { [native code] }''"

text \<open>
  \<^verbatim>\<open>
  for (const { name, fn } of methods) {
    if (typeof fn !== 'function' && typeof name !== 'string') {
      throw new InvalidParamTypeError('method', '{fn: function, name: string}',
        `name: ${Function} and fn: ${Function}`)
    }
    if (typeof name !== 'string') {
      throw new InvalidParamTypeError('method', 'string', typeof name)
    }
    if (typeof fn !== 'function') {
      throw new InvalidParamTypeError('method', 'function', typeof name)
    }
    TaskSchema.statics[name] = fn
  }
  \<close>
  The loop returns the thrown error, if any, and the schema as the loop leaves it. The
  assignment is reached only with a \<open>name\<close> whose \<open>typeof\<close> is \<open>string\<close>, that is a
  \<open>JStr\<close>, and an \<open>fn\<close> whose \<open>typeof\<close> is \<open>function\<close>, that is a \<open>JFun\<close>: the
  two last cases below are never taken.
\<close>

fun install_methods :: "schema \<Rightarrow> jsval list \<Rightarrow> error option \<times> schema" where
  "install_methods S [] = (None, S)"
| "install_methods S (entry # rest) =
     (case destructure entry of
        None \<Rightarrow> (Some TypeError, S)
      | Some (name, fn) \<Rightarrow>
          if typeof fn \<noteq> ''function'' \<and> typeof name \<noteq> ''string''
          then (Some (InvalidParamTypeError ''method'' ''{fn: function, name: string}''
                        (''name: '' @ Function_string @ '' and fn: '' @ Function_string)), S)
          else if typeof name \<noteq> ''string''
          then (Some (InvalidParamTypeError ''method'' ''string'' (typeof name)), S)
          else if typeof fn \<noteq> ''function''
          then (Some (InvalidParamTypeError ''method'' ''function'' (typeof name)), S)
          else (case name of
                  JStr nm \<Rightarrow>
                    (case fn of
                       JFun f \<Rightarrow> install_methods (set_static S nm f) rest
                     | _ \<Rightarrow> (Some TypeError, S))
                | _ \<Rightarrow> (Some TypeError, S)))"

text \<open>
  \<^verbatim>\<open>
  function applyStaticMethods(TaskSchema, methods) {
    if (!Array.isArray(methods)) {
      throw new InvalidParamTypeError('methods', 'Array', typeof methods)
    }
    if (!TaskSchema) { throw new MissingParamError('TaskSchema') }
    if (!methods) { throw new MissingParamError('methods') }
    for (const { name, fn } of methods) { ... }
  }
  \<close>
\<close>

definition applyStaticMethods :: "schema option \<Rightarrow> jsval \<Rightarrow> error option \<times> schema option" where
  "applyStaticMethods TaskSchema methods =
     (if \<not> isArray methods
      then (Some (InvalidParamTypeError ''methods'' ''Array'' (typeof methods)), TaskSchema)
      else (case TaskSchema of
              None \<Rightarrow> (Some (MissingParamError ''TaskSchema''), TaskSchema)
            | Some S \<Rightarrow>
                if falsy methods then (Some (MissingParamError ''methods''), TaskSchema)
                else (case methods of
                        JArr entries \<Rightarrow>
                          (case install_methods S entries of (e, S') \<Rightarrow> (e, Some S'))
                      | _ \<Rightarrow> (Some TypeError, TaskSchema))))"

text \<open>An entry the loop installs: an object whose \<open>name\<close> is a string and whose
  \<open>fn\<close> is a function. \<open>install_entry\<close> is what the loop does with one.\<close>

definition valid_entry :: "jsval \<Rightarrow> bool" where
  "valid_entry entry =
     (case destructure entry of
        Some (JStr nm, JFun f) \<Rightarrow> True
      | _ \<Rightarrow> False)"

definition install_entry :: "schema \<Rightarrow> jsval \<Rightarrow> schema" where
  "install_entry S entry =
     (case destructure entry of
        Some (JStr nm, JFun f) \<Rightarrow> set_static S nm f
      | _ \<Rightarrow> S)"

text \<open>A valid entry whose name is not \<open>__proto__\<close>.\<close>

definition plain_entry :: "jsval \<Rightarrow> bool" where
  "plain_entry e =
     (case destructure e of
        Some (JStr nm, JFun f) \<Rightarrow> nm \<noteq> ''__proto__''
      | _ \<Rightarrow> False)"

text \<open>A schema as \<^verbatim>\<open>new Schema(...)\<close> leaves it: \<open>statics\<close> is \<^verbatim>\<open>{}\<close>.\<close>

definition new_schema :: schema where
  "new_schema = \<lparr>statics = Map.empty, statics_prototype = Object_prototype\<rparr>"

section \<open>The pipeline executor\<close>

text \<open>
  Modelled from the spec: \<^verbatim>\<open>createPipeOps().create\<close> (\<^verbatim>\<open>operations/pipe.js\<close> is not
  among the sources). "Folds the initial value through each step strictly in sequence
  order [...] then invokes the terminal consumer with the resulting value and returns
  the terminal consumer's return value. [...] if any step fails (throws / rejects),
  execution stops immediately; no subsequent step or the terminal consumer runs; the
  failure propagates to the pipeline's caller as a failed asynchronous result."

  A step returns its value (\<open>Inr\<close>; awaited when it is a promise) or fails (\<open>Inl\<close>).
  The arguments carry the names the response formatter passes: \<open>arrayStore\<close> is the
  initial value, \<open>runLast\<close> the steps. The second component of the result is the trace
  of the invocations: each step with its position and the value it received, and the
  terminal consumer with the value it received.
\<close>

datatype 'v pipe_event = StepCall nat 'v | TerminalCall 'v

record ('e, 'v) pipe_args =
  arrayStore :: 'v
  runLast :: "('v \<Rightarrow> 'e + 'v) list"

text \<open>
  Modelled from the spec: the fold of the value through the steps, in sequence order,
  stopping at the first step that fails. \<open>i\<close> is the position of the first step of
  the list.
\<close>

fun run_steps :: "('v \<Rightarrow> 'e + 'v) list \<Rightarrow> nat \<Rightarrow> 'v \<Rightarrow> ('e + 'v) \<times> 'v pipe_event list" where
  "run_steps [] i v = (Inr v, [])"
| "run_steps (f # fs) i v =
     (case f v of
        Inl e \<Rightarrow> (Inl e, [StepCall i v])
      | Inr w \<Rightarrow> (case run_steps fs (Suc i) w of (r, tr) \<Rightarrow> (r, StepCall i v # tr)))"

text \<open>
  Modelled from the spec: \<^verbatim>\<open>create(args, terminalConsumer)\<close>. A failure of a step is
  the result; otherwise the terminal consumer is invoked with the final value and its
  return value is the result.
\<close>

definition create ::
  "('e, 'v) pipe_args \<Rightarrow> ('v \<Rightarrow> 'r) \<Rightarrow> ('e + 'r) \<times> 'v pipe_event list" where
  "create args consumer =
     (case run_steps (runLast args) 0 (arrayStore args) of
        (Inl e, tr) \<Rightarrow> (Inl e, tr)
      | (Inr v, tr) \<Rightarrow> (Inr (consumer v), tr @ [TerminalCall v]))"

text \<open>A step that cannot fail, and the values a list of such steps receives in turn.\<close>

definition pure_step :: "('v \<Rightarrow> 'v) \<Rightarrow> 'v \<Rightarrow> 'e + 'v" where
  "pure_step f v = Inr (f v)"

fun step_inputs :: "('v \<Rightarrow> 'v) list \<Rightarrow> 'v \<Rightarrow> 'v list" where
  "step_inputs [] v = []"
| "step_inputs (f # fs) v = v # step_inputs fs (f v)"

definition terminal_calls :: "'v pipe_event list \<Rightarrow> 'v list" where
  "terminal_calls tr = concat (map (\<lambda>ev. case ev of TerminalCall v \<Rightarrow> [v] | StepCall i v \<Rightarrow> []) tr)"

definition step_calls :: "'v pipe_event list \<Rightarrow> nat list" where
  "step_calls tr = concat (map (\<lambda>ev. case ev of StepCall i v \<Rightarrow> [i] | TerminalCall v \<Rightarrow> []) tr)"

section \<open>The response formatter\<close>

text \<open>
  The Express response \<open>res\<close> is the status and the body it was given:
  \<^verbatim>\<open>res.status(code)\<close> sets the status, \<^verbatim>\<open>.json(body)\<close> sends the body; both return
  \<open>res\<close>.
\<close>

record response =
  res_statusCode :: nat
  res_body :: "jsval option"

definition res_status :: "response \<Rightarrow> nat \<Rightarrow> response" where
  "res_status r code = r\<lparr>res_statusCode := code\<rparr>"

definition res_json :: "response \<Rightarrow> jsval \<Rightarrow> response" where
  "res_json r body = r\<lparr>res_body := Some body\<rparr>"

text \<open>
  \<^verbatim>\<open>
  json({ res, data, statusCode = 200, success = true, pipeCallBacks = [] }) {
    if (pipeCallBacks?.length) {
      return createPipeOps().create(
        { arrayStore: data, runLast: pipeCallBacks },
        pipeData => res.status(statusCode).json({ success, pipeData, statusCode }),
      )
    }
    return res.status(statusCode).json({ success, data, statusCode })
  }
  \<close>
  An option that is \<open>undefined\<close> (\<open>None\<close>, \<open>CbUndefined\<close>) takes its default
  (\<open>statusCode_of\<close>, \<open>success_of\<close>, \<open>pipeCallBacks_of\<close>).
  \<open>pipeCallBacks\<close> is \<open>undefined\<close>, \<open>null\<close> or an array of steps;
  \<^verbatim>\<open>pipeCallBacks?.length\<close> is truthy for a non-empty array only. The executor is the
  parameter \<open>pipe_create\<close>; the result is the executor's (\<open>Inl\<close>) or the response
  (\<open>Inr\<close>).
\<close>

datatype 'e callbacks = CbUndefined | CbNull | CbArray "(jsval \<Rightarrow> 'e + jsval) list"

record 'e json_options =
  res :: response
  data :: jsval
  statusCode :: "nat option"
  success :: "bool option"
  pipeCallBacks :: "'e callbacks"

definition json_body :: "bool \<Rightarrow> string \<Rightarrow> jsval \<Rightarrow> nat \<Rightarrow> jsval" where
  "json_body ok payload_key payload code =
     JObj [(''success'', JBool ok), (payload_key, payload), (''statusCode'', JNum (of_nat code))]"

definition statusCode_of :: "('e, 'z) json_options_scheme \<Rightarrow> nat" where
  "statusCode_of opts = (case statusCode opts of None \<Rightarrow> 200 | Some c \<Rightarrow> c)"

definition success_of :: "('e, 'z) json_options_scheme \<Rightarrow> bool" where
  "success_of opts = (case success opts of None \<Rightarrow> True | Some b \<Rightarrow> b)"

definition pipeCallBacks_of :: "('e, 'z) json_options_scheme \<Rightarrow> 'e callbacks" where
  "pipeCallBacks_of opts = (case pipeCallBacks opts of CbUndefined \<Rightarrow> CbArray [] | c \<Rightarrow> c)"

definition json ::
  "(('e, jsval) pipe_args \<Rightarrow> (jsval \<Rightarrow> response) \<Rightarrow> 'p) \<Rightarrow> 'e json_options \<Rightarrow> 'p + response" where
  "json pipe_create opts =
     (case pipeCallBacks_of opts of
        CbArray (f # fs) \<Rightarrow>
          Inl (pipe_create \<lparr>arrayStore = data opts, runLast = f # fs\<rparr>
                 (\<lambda>pipeData. res_json (res_status (res opts) (statusCode_of opts))
                                (json_body (success_of opts) ''pipeData'' pipeData
                                   (statusCode_of opts))))
      | _ \<Rightarrow>
          Inr (res_json (res_status (res opts) (statusCode_of opts))
                 (json_body (success_of opts) ''data'' (data opts) (statusCode_of opts))))"

section \<open>Properties of safeFindById\<close>

text \<open>
  C1. For every string id: a malformed id is rejected with \<open>BadRequest\<close> and no
  lookup is executed; a well-formed id that matches no record is rejected with
  \<open>NotFound\<close>; otherwise the matching record is returned.
\<close>

theorem safeFindById_cases:
  "(\<not> isValid id0 \<longrightarrow>
      safeFindById isValid findById id0 = (Inl (BadRequestError ''Invalid ID format''), []))
   \<and> (isValid id0 \<and> findById id0 = None \<longrightarrow>
      fst (safeFindById isValid findById id0) = Inl (NotFoundError ''Task not found''))
   \<and> (isValid id0 \<and> findById id0 = Some d \<longrightarrow>
      fst (safeFindById isValid findById id0) = Inr d)"
  by (simp add: safeFindById_def)

theorem safeFindById_cases_witness:
  "safeFindById isValid_hex24 (map_of [(''507f1f77bcf86cd799439011'', ''Alpha task'')])
       ''not-a-valid-id''
     = (Inl (BadRequestError ''Invalid ID format''), [])
   \<and> fst (safeFindById isValid_hex24 (map_of [(''507f1f77bcf86cd799439011'', ''Alpha task'')])
       ''507f191e810c19729de860ea'')
     = Inl (NotFoundError ''Task not found'')
   \<and> fst (safeFindById isValid_hex24 (map_of [(''507f1f77bcf86cd799439011'', ''Alpha task'')])
       ''507f1f77bcf86cd799439011'')
     = Inr ''Alpha task''"
proof -
  let ?find = "map_of [(''507f1f77bcf86cd799439011'', ''Alpha task'')]"
  have bad: "\<not> isValid_hex24 ''not-a-valid-id''"
    by (simp add: isValid_hex24_def)
  have ok1: "isValid_hex24 ''507f191e810c19729de860ea''"
    by (simp add: isValid_hex24_def hex_digit_def)
  have ok2: "isValid_hex24 ''507f1f77bcf86cd799439011''"
    by (simp add: isValid_hex24_def hex_digit_def)
  have absent: "?find ''507f191e810c19729de860ea'' = None" by simp
  have present: "?find ''507f1f77bcf86cd799439011'' = Some ''Alpha task''" by simp
  from safeFindById_cases [of isValid_hex24 "''not-a-valid-id''" ?find] bad
  have a: "safeFindById isValid_hex24 ?find ''not-a-valid-id''
             = (Inl (BadRequestError ''Invalid ID format''), [])"
    by blast
  from safeFindById_cases [of isValid_hex24 "''507f191e810c19729de860ea''" ?find] ok1 absent
  have b: "fst (safeFindById isValid_hex24 ?find ''507f191e810c19729de860ea'')
             = Inl (NotFoundError ''Task not found'')"
    by blast
  from safeFindById_cases [of isValid_hex24 "''507f1f77bcf86cd799439011''" ?find "''Alpha task''"]
    ok2 present
  have c: "fst (safeFindById isValid_hex24 ?find ''507f1f77bcf86cd799439011'')
             = Inr ''Alpha task''"
    by blast
  from a b c show ?thesis by blast
qed

section \<open>Properties of safeLimit\<close>

lemma exec_ceiling_bound:
  "length (exec (q\<lparr>options_limit := Some (JNum (of_nat (Suc k)))\<rparr>) docs) \<le> Suc k"
  by (simp add: exec_def Let_def del: of_nat_Suc)

text \<open>
  C2. For every argument \<open>n\<close>: a falsy \<open>n\<close> (\<open>undefined\<close>, \<open>0\<close>, ...) returns the
  query unchanged, with no ceiling applied; otherwise an \<open>n\<close> the rule rejects fails
  with \<open>BadRequest\<close>; otherwise the ceiling the rule returns is applied, and when the
  rule returns the positive integer \<open>n\<close> itself, executing the returned query yields at
  most \<open>n\<close> records. The cases are read in the order of the claim: \<open>0\<close> is falsy, so
  it never reaches the rule.
\<close>

theorem safeLimit_cases:
  "(falsy n \<longrightarrow> safeLimit rule this n = (None, this))
   \<and> (\<not> falsy n \<and> rule n = None \<longrightarrow>
        safeLimit rule this n = (Some (BadRequestError ''Invalid Limit''), this))
   \<and> (\<not> falsy n \<and> rule n = Some d \<longrightarrow>
        safeLimit rule this n = (None, this\<lparr>options_limit := Some d\<rparr>))
   \<and> (\<not> falsy n \<and> rule n = Some n \<and> n = JNum (of_nat k) \<longrightarrow>
        length (exec (snd (safeLimit rule this n)) docs) \<le> k)"
proof (intro conjI impI)
  assume a: "\<not> falsy n \<and> rule n = Some n \<and> n = JNum (of_nat k)"
  then have nf: "\<not> falsy n" and r: "rule n = Some n" and n: "n = JNum (of_nat k)"
    by blast+
  from nf n obtain k' where k: "k = Suc k'" by (cases k) auto
  have run: "safeLimit rule this n = (None, this\<lparr>options_limit := Some n\<rparr>)"
    using nf r by (simp add: safeLimit_def Query_limit_def)
  have "length (exec (this\<lparr>options_limit := Some n\<rparr>) docs) \<le> k"
    unfolding n k by (rule exec_ceiling_bound)
  with run show "length (exec (snd (safeLimit rule this n)) docs) \<le> k"
    by simp
qed (simp_all add: safeLimit_def Query_limit_def)

theorem safeLimit_cases_witness:
  "safeLimit (limit_rule 100) find_all JUndefined = (None, find_all)
   \<and> safeLimit (limit_rule 100) find_all (JNum 0) = (None, find_all)
   \<and> safeLimit (limit_rule 100) find_all (JNum (- 1))
       = (Some (BadRequestError ''Invalid Limit''), find_all)
   \<and> safeLimit (limit_rule 100) find_all (JNum (3 / 2))
       = (Some (BadRequestError ''Invalid Limit''), find_all)
   \<and> safeLimit (limit_rule 100) find_all (JNum 5)
       = (None, find_all\<lparr>options_limit := Some (JNum 5)\<rparr>)
   \<and> length (exec (snd (safeLimit (limit_rule 100) find_all (JNum 5)))
               (replicate 7 [(''description'', JStr ''Alpha task'')])) \<le> 5"
proof -
  have r1: "limit_rule 100 (JNum (- 1)) = None" by (simp add: limit_rule_def)
  have r2: "limit_rule 100 (JNum (3 / 2)) = None" by code_simp
  have r3: "limit_rule 100 (JNum 5) = Some (JNum 5)" by (simp add: limit_rule_def)
  have a: "safeLimit (limit_rule 100) find_all JUndefined = (None, find_all)"
    using safeLimit_cases [where n = JUndefined and rule = "limit_rule 100" and this = find_all]
    by simp
  have b: "safeLimit (limit_rule 100) find_all (JNum 0) = (None, find_all)"
    using safeLimit_cases [where n = "JNum 0" and rule = "limit_rule 100" and this = find_all]
    by simp
  have c: "safeLimit (limit_rule 100) find_all (JNum (- 1))
             = (Some (BadRequestError ''Invalid Limit''), find_all)"
    using safeLimit_cases [where n = "JNum (- 1)" and rule = "limit_rule 100" and this = find_all]
      r1 by simp
  have d: "safeLimit (limit_rule 100) find_all (JNum (3 / 2))
             = (Some (BadRequestError ''Invalid Limit''), find_all)"
    using safeLimit_cases [where n = "JNum (3 / 2)" and rule = "limit_rule 100" and this = find_all]
      r2 by simp
  have e: "safeLimit (limit_rule 100) find_all (JNum 5)
             = (None, find_all\<lparr>options_limit := Some (JNum 5)\<rparr>)"
    using safeLimit_cases [where n = "JNum 5" and rule = "limit_rule 100" and this = find_all
        and d = "JNum 5"] r3 by simp
  have f: "length (exec (snd (safeLimit (limit_rule 100) find_all (JNum 5)))
               (replicate 7 [(''description'', JStr ''Alpha task'')])) \<le> 5"
  proof -
    have hyp: "\<not> falsy (JNum 5) \<and> limit_rule 100 (JNum 5) = Some (JNum 5)
        \<and> JNum 5 = JNum (of_nat 5)"
      using r3 by simp
    from safeLimit_cases [where n = "JNum 5" and rule = "limit_rule 100" and this = find_all
        and k = 5 and docs = "replicate 7 [(''description'', JStr ''Alpha task'')]"
        and d = "JNum 5", THEN conjunct2, THEN conjunct2, THEN conjunct2]
    have "\<not> falsy (JNum 5) \<and> limit_rule 100 (JNum 5) = Some (JNum 5)
        \<and> JNum 5 = JNum (of_nat 5) \<longrightarrow>
        length (exec (snd (safeLimit (limit_rule 100) find_all (JNum 5)))
               (replicate 7 [(''description'', JStr ''Alpha task'')])) \<le> 5"
      .
    then show ?thesis using hyp by (rule mp)
  qed
  from a b c d e f show ?thesis by blast
qed

section \<open>Properties of safeStartsWith\<close>

text \<open>The escaped pattern denotes the search string itself: decoding it gives the
  string back, whatever metacharacters it contains.\<close>

lemma literal_of_plain:
  "c \<notin> set regex_meta \<Longrightarrow> literal_of (c # cs) = map_option ((#) c) (literal_of cs)"
  by (cases cs) (auto simp add: regex_meta_def)

lemma literal_of_escapeRegex: "literal_of (escapeRegex s) = Some s"
proof (induction s)
  case Nil
  show ?case by (simp add: escapeRegex_def)
next
  case (Cons c s)
  have step: "escapeRegex (c # s) =
      (if c \<in> set regex_meta then CHR 0x5C # c # escapeRegex s else c # escapeRegex s)"
    by (simp add: escapeRegex_def)
  show ?case
  proof (cases "c \<in> set regex_meta")
    case True
    then show ?thesis using Cons.IH by (simp add: step)
  next
    case False
    then show ?thesis
      using Cons.IH literal_of_plain [OF False, of "escapeRegex s"] by (simp add: step)
  qed
qed

lemma regexp_test_escaped:
  "regexp_test \<lparr>source = CHR ''^'' # escapeRegex s, flags = ''i''\<rparr> v
     = Some (prefix (map to_lower s) (map to_lower v))"
  by (simp add: regexp_test_def literal_of_escapeRegex)

text \<open>With a key that \<^verbatim>\<open>in\<close> finds, an accepted search string becomes a condition
  that holds of exactly the field values starting with that string, letter case aside;
  a key that \<^verbatim>\<open>in\<close> does not find is rejected by name; a falsy search parameter
  changes nothing.\<close>

lemma safeStartsWith_filters:
  assumes "\<not> falsy searchParam" and "rule searchParam = Some (JStr s)"
    and "js_in key (schema_paths T)"
  shows "safeStartsWith rule this searchParam key T
           = (None, Query_where this key \<lparr>source = CHR ''^'' # escapeRegex s, flags = ''i''\<rparr>)"
    and "satisfies doc (key, \<lparr>source = CHR ''^'' # escapeRegex s, flags = ''i''\<rparr>)
           \<longleftrightarrow> (\<exists>v. map_of doc key = Some (JStr v) \<and> prefix (map to_lower s) (map to_lower v))"
  using assms
  by (auto simp add: safeStartsWith_def satisfies_def regexp_test_escaped
      split: option.splits jsval.splits)

lemma safeStartsWith_unknown_key:
  assumes "\<not> falsy searchParam" and "rule searchParam = Some parsed"
    and "\<not> js_in key (schema_paths T)"
  shows "safeStartsWith rule this searchParam key T
           = (Some (BadRequestError (''No Property '' @ key @ '' found'')), this)"
  using assms by (simp add: safeStartsWith_def)

lemma safeStartsWith_falsy:
  "falsy searchParam \<Longrightarrow> safeStartsWith rule this searchParam key T = (None, this)"
  by (simp add: safeStartsWith_def)

lemma safeStartsWith_dot_is_literal:
  "snd (safeStartsWith string_rule find_all (JStr ''a.b'') ''description'' Task)
     = \<lparr>conditions = [(''description'', \<lparr>source = [CHR ''^'', CHR ''a'', CHR 0x5C, CHR ''.'', CHR ''b''],
                                           flags = ''i''\<rparr>)],
        options_limit = None\<rparr>
   \<and> exec (snd (safeStartsWith string_rule find_all (JStr ''a.b'') ''description'' Task))
        [[(''description'', JStr ''a.b first'')], [(''description'', JStr ''axb second'')],
         [(''description'', JStr ''A.B third'')]]
     = [[(''description'', JStr ''a.b first'')], [(''description'', JStr ''A.B third'')]]"
  by (simp add: safeStartsWith_def string_rule_def js_in_def Task_def escapeRegex_def
      regex_meta_def Query_where_def find_all_def exec_def satisfies_def regexp_test_def
      to_lower_def)

text \<open>The scenario of the spec: of three tasks, two start with \<open>Alpha\<close>; the chain
  \<^verbatim>\<open>find({}).safeStartsWith('Alpha', 'description', Task).safeLimit(1).exec()\<close>
  returns one of them.\<close>

lemma find_startsWith_limit_scenario:
  "exec (snd (safeLimit (limit_rule 100)
               (snd (safeStartsWith string_rule find_all (JStr ''Alpha'') ''description'' Task))
               (JNum 1)))
        [[(''description'', JStr ''Alpha task'')], [(''description'', JStr ''Alpha beta'')],
         [(''description'', JStr ''Beta task'')]]
     = [[(''description'', JStr ''Alpha task'')]]"
  by (simp add: safeStartsWith_def string_rule_def js_in_def Task_def escapeRegex_def
      regex_meta_def Query_where_def Query_limit_def find_all_def exec_def satisfies_def
      regexp_test_def to_lower_def safeLimit_def limit_rule_def)

text \<open>
  C3. \<open>safeStartsWith\<close> with a search string the rule accepts: a key that names no
  declared field of the schema is to be rejected with a \<open>BadRequest\<close> naming it;
  otherwise the query is filtered by a case-insensitive prefix match of the escaped
  string; a falsy search parameter changes nothing. The lemmas above prove the last two
  parts, and the first for every key that \<^verbatim>\<open>in\<close> does not find. The key
  \<open>constructor\<close> is not declared by \<open>TaskSchema\<close>, but every object inherits it:
  at this key nothing is thrown, and the query comes back filtered on the path
  \<open>constructor\<close>.
\<close>

theorem safeStartsWith_inherited_key:
  "safeStartsWith string_rule find_all (JStr ''x'') ''constructor'' Task
     = (None, \<lparr>conditions = [(''constructor'', \<lparr>source = ''^x'', flags = ''i''\<rparr>)],
               options_limit = None\<rparr>)
   \<and> ''constructor'' \<notin> set (schema_paths Task)"
  by (simp add: safeStartsWith_def string_rule_def js_in_def Task_def
      Object_prototype_properties_def escapeRegex_def regex_meta_def Query_where_def find_all_def)

section \<open>Failed validation leaves the query as it was\<close>

text \<open>
  C8. When \<open>safeLimit\<close> or \<open>safeStartsWith\<close> throws, the receiver's accumulated
  filter and ceiling are what they were before the call.
\<close>

theorem guarded_query_unchanged_on_failure:
  "(fst (safeLimit rule this n) \<noteq> None \<longrightarrow> snd (safeLimit rule this n) = this)
   \<and> (fst (safeStartsWith rule' this searchParam key T) \<noteq> None \<longrightarrow>
        snd (safeStartsWith rule' this searchParam key T) = this)"
  by (auto simp add: safeLimit_def safeStartsWith_def split: option.splits jsval.splits)

theorem guarded_query_unchanged_on_failure_witness:
  "fst (safeLimit (limit_rule 100) (Query_limit find_all (JNum 3)) (JNum (- 1)))
     = Some (BadRequestError ''Invalid Limit'')
   \<and> snd (safeLimit (limit_rule 100) (Query_limit find_all (JNum 3)) (JNum (- 1)))
     = Query_limit find_all (JNum 3)
   \<and> fst (safeStartsWith string_rule (Query_limit find_all (JNum 3)) (JStr ''x'')
            ''nonexistentField'' Task)
     = Some (BadRequestError ''No Property nonexistentField found'')
   \<and> snd (safeStartsWith string_rule (Query_limit find_all (JNum 3)) (JStr ''x'')
            ''nonexistentField'' Task)
     = Query_limit find_all (JNum 3)"
proof -
  let ?q = "Query_limit find_all (JNum 3)"
  have a: "fst (safeLimit (limit_rule 100) ?q (JNum (- 1))) = Some (BadRequestError ''Invalid Limit'')"
    by (simp add: safeLimit_def limit_rule_def)
  have b: "fst (safeStartsWith string_rule ?q (JStr ''x'') ''nonexistentField'' Task)
             = Some (BadRequestError ''No Property nonexistentField found'')"
    by (simp add: safeStartsWith_def string_rule_def js_in_def Task_def
        Object_prototype_properties_def)
  from a b
    guarded_query_unchanged_on_failure [where rule = "limit_rule 100" and this = ?q
      and n = "JNum (- 1)" and rule' = string_rule and searchParam = "JStr ''x''"
      and key = "''nonexistentField''" and T = Task]
  show ?thesis by simp
qed

section \<open>Properties of applyStaticMethods\<close>



lemma valid_entry_iff:
  "valid_entry entry \<longleftrightarrow> (\<exists>nm f. destructure entry = Some (JStr nm, JFun f))"
  by (auto simp add: valid_entry_def split: option.splits prod.splits jsval.splits)

lemma install_methods_valid:
  assumes "valid_entry entry"
  shows "install_methods S (entry # rest) = install_methods (install_entry S entry) rest"
proof -
  from assms obtain nm f where d: "destructure entry = Some (JStr nm, JFun f)"
    by (auto simp add: valid_entry_iff)
  show ?thesis by (simp add: d install_entry_def)
qed


lemma install_methods_prefix:
  "list_all valid_entry pre \<Longrightarrow>
     install_methods S (pre @ rest) = install_methods (foldl install_entry S pre) rest"
proof (induction pre arbitrary: S)
  case Nil
  show ?case by simp
next
  case (Cons entry pre)
  then show ?case by (simp add: install_methods_valid del: install_methods.simps)
qed


text \<open>What one assignment does to the namespace. On an object whose prototype is
  \<^verbatim>\<open>Object.prototype\<close>, every name but \<open>__proto__\<close> becomes (or stays) an own
  property bound to the function; \<open>__proto__\<close>, unless it is an own property already,
  replaces the prototype and binds nothing.\<close>

lemma set_static_binds:
  "statics_prototype S = Object_prototype \<Longrightarrow> nm \<noteq> ''__proto__'' \<Longrightarrow>
     set_static S nm f = S\<lparr>statics := (statics S)(nm \<mapsto> JFun f)\<rparr>"
  by (simp add: set_static_def inherits_read_only_def)

lemma set_static_proto:
  "statics_prototype S = Object_prototype \<Longrightarrow> statics S ''__proto__'' = None \<Longrightarrow>
     set_static S ''__proto__'' f = S\<lparr>statics_prototype := Function_object f\<rparr>"
  by (simp add: set_static_def inherits_read_only_def)

text \<open>The names bound in the namespace after installing a list of entries are among
  those it had and those of the entries of the list: no other entry contributes one.
  When no prototype is replaced, they are exactly these.\<close>

lemma install_entry_names:
  "dom (statics (install_entry S e))
     \<subseteq> dom (statics S) \<union> {nm. \<exists>f. destructure e = Some (JStr nm, JFun f)}"
  by (auto simp add: install_entry_def set_static_def
      split: option.splits prod.splits jsval.splits if_splits)

lemma installed_names:
  "dom (statics (foldl install_entry S es))
     \<subseteq> dom (statics S) \<union> {nm. \<exists>e \<in> set es. \<exists>f. destructure e = Some (JStr nm, JFun f)}"
proof (induction es arbitrary: S)
  case Nil
  show ?case by simp
next
  case (Cons e es)
  show ?case
  proof
    fix nm
    assume "nm \<in> dom (statics (foldl install_entry S (e # es)))"
    then have "nm \<in> dom (statics (foldl install_entry (install_entry S e) es))"
      by simp
    with Cons.IH [of "install_entry S e"]
    have "nm \<in> dom (statics (install_entry S e))
        \<or> (\<exists>e' \<in> set es. \<exists>f. destructure e' = Some (JStr nm, JFun f))"
      by blast
    then show "nm \<in> dom (statics S)
        \<union> {nm. \<exists>e' \<in> set (e # es). \<exists>f. destructure e' = Some (JStr nm, JFun f)}"
    proof
      assume "nm \<in> dom (statics (install_entry S e))"
      with install_entry_names [of S e]
      have "nm \<in> dom (statics S) \<or> (\<exists>f. destructure e = Some (JStr nm, JFun f))"
        by blast
      then show ?thesis by auto
    next
      assume "\<exists>e' \<in> set es. \<exists>f. destructure e' = Some (JStr nm, JFun f)"
      then show ?thesis by auto
    qed
  qed
qed

lemma install_plain_entry:
  assumes "statics_prototype S = Object_prototype" and "plain_entry e"
  shows "statics_prototype (install_entry S e) = Object_prototype"
    and "dom (statics (install_entry S e))
           = dom (statics S) \<union> {nm. \<exists>f. destructure e = Some (JStr nm, JFun f)}"
proof -
  from assms(2) obtain nm f where d: "destructure e = Some (JStr nm, JFun f)"
    and nm: "nm \<noteq> ''__proto__''"
    by (auto simp add: plain_entry_def split: option.splits prod.splits jsval.splits)
  have i: "install_entry S e = S\<lparr>statics := (statics S)(nm \<mapsto> JFun f)\<rparr>"
    using set_static_binds [OF assms(1) nm] by (simp add: install_entry_def d)
  show "statics_prototype (install_entry S e) = Object_prototype"
    using assms(1) by (simp add: i)
  show "dom (statics (install_entry S e))
           = dom (statics S) \<union> {nm. \<exists>f. destructure e = Some (JStr nm, JFun f)}"
    by (auto simp add: i d)
qed

lemma installed_plain_names:
  "statics_prototype S = Object_prototype \<Longrightarrow> list_all plain_entry es \<Longrightarrow>
     dom (statics (foldl install_entry S es))
       = dom (statics S) \<union> {nm. \<exists>e \<in> set es. \<exists>f. destructure e = Some (JStr nm, JFun f)}"
proof (induction es arbitrary: S)
  case Nil
  show ?case by simp
next
  case (Cons e es)
  from Cons.prems have e: "plain_entry e" and es: "list_all plain_entry es" by simp_all
  note step = install_plain_entry [OF Cons.prems(1) e]
  from Cons.IH [OF step(1) es] step(2)
  show ?case by (simp only: foldl_Cons) auto
qed



text \<open>
  C5. \<open>applyStaticMethods\<close> is to fail with a type-mismatch error when \<open>methods\<close> is
  not an array, and with a missing-parameter error when the schema or the method list
  is missing. With a schema and no method list (\<open>undefined\<close>), the test
  \<^verbatim>\<open>Array.isArray\<close> comes first: the error thrown is the type-mismatch one.
\<close>

theorem applyStaticMethods_missing_methods:
  "applyStaticMethods (Some new_schema) JUndefined
     = (Some (InvalidParamTypeError ''methods'' ''Array'' ''undefined''), Some new_schema)"
  by (simp add: applyStaticMethods_def)

text \<open>No call ends in \<^verbatim>\<open>MissingParamError('methods')\<close>: an array is never falsy. The
  other two checks do what the claim says.\<close>

lemma applyStaticMethods_never_missing_methods:
  "fst (applyStaticMethods TaskSchema methods) \<noteq> Some (MissingParamError ''methods'')"
proof (cases methods)
  case (JArr entries)
  have never: "fst (install_methods S entries) \<noteq> Some (MissingParamError ''methods'')" for S
    by (induction entries arbitrary: S) (auto split: option.splits prod.splits jsval.splits)
  show ?thesis
  proof (cases TaskSchema)
    case None
    then show ?thesis by (simp add: applyStaticMethods_def JArr)
  next
    case (Some S)
    obtain e S' where r: "install_methods S entries = (e, S')"
      by (cases "install_methods S entries")
    with never [of S] have "e \<noteq> Some (MissingParamError ''methods'')" by simp
    with r show ?thesis by (simp add: applyStaticMethods_def JArr Some)
  qed
qed (simp_all add: applyStaticMethods_def)

lemma applyStaticMethods_not_an_array:
  "\<not> isArray methods \<Longrightarrow>
     applyStaticMethods TaskSchema methods
       = (Some (InvalidParamTypeError ''methods'' ''Array'' (typeof methods)), TaskSchema)"
  by (simp add: applyStaticMethods_def)

lemma applyStaticMethods_missing_schema:
  "applyStaticMethods None (JArr entries) = (Some (MissingParamError ''TaskSchema''), None)"
  by (simp add: applyStaticMethods_def)

text \<open>
  C10. An entry whose \<open>name\<close> is a string and whose \<open>fn\<close> is not callable, after
  valid entries only: the error's received type is \<open>typeof name\<close>, that is \<open>string\<close>,
  whatever the type of \<open>fn\<close>.
\<close>

theorem applyStaticMethods_reports_typeof_name:
  "list_all valid_entry pre \<and> destructure entry = Some (JStr nm, fn)
     \<and> typeof fn \<noteq> ''function'' \<longrightarrow>
     fst (applyStaticMethods (Some S) (JArr (pre @ entry # post)))
       = Some (InvalidParamTypeError ''method'' ''function'' (typeof (JStr nm)))
     \<and> typeof (JStr nm) = ''string''"
proof
  assume a: "list_all valid_entry pre \<and> destructure entry = Some (JStr nm, fn)
      \<and> typeof fn \<noteq> ''function''"
  then have "install_methods (foldl install_entry S pre) (entry # post)
      = (Some (InvalidParamTypeError ''method'' ''function'' (typeof (JStr nm))),
         foldl install_entry S pre)"
    by simp
  with a show "fst (applyStaticMethods (Some S) (JArr (pre @ entry # post)))
       = Some (InvalidParamTypeError ''method'' ''function'' (typeof (JStr nm)))
     \<and> typeof (JStr nm) = ''string''"
    by (simp add: applyStaticMethods_def install_methods_prefix del: install_methods.simps)
qed

theorem applyStaticMethods_reports_typeof_name_witness:
  "fst (applyStaticMethods (Some new_schema)
          (JArr [JObj [(''name'', JStr ''a''), (''fn'', JNum 42)]]))
     = Some (InvalidParamTypeError ''method'' ''function'' ''string'')
   \<and> typeof (JNum 42) = ''number''"
proof -
  have d: "destructure (JObj [(''name'', JStr ''a''), (''fn'', JNum 42)])
      = Some (JStr ''a'', JNum 42)"
    by (simp add: get_property_def)
  show ?thesis
    using applyStaticMethods_reports_typeof_name [where pre = "[]"
        and entry = "JObj [(''name'', JStr ''a''), (''fn'', JNum 42)]" and nm = "''a''"
        and fn = "JNum 42" and post = "[]" and S = new_schema] d
    by simp
qed

section \<open>Properties of the pipeline executor\<close>

lemma run_steps_pure:
  "run_steps (map pure_step fs) i v
     = (Inr (fold (\<lambda>f. f) fs v), map2 StepCall [i..<i + length fs] (step_inputs fs v))"
proof (induction fs arbitrary: i v)
  case Nil
  show ?case by simp
next
  case (Cons f fs)
  have upt: "[i..<i + length (f # fs)] = i # [Suc i..<Suc i + length fs]"
    by (simp add: upt_rec)
  show ?case
    by (simp only: upt list.map run_steps.simps Cons.IH)
      (simp add: pure_step_def)
qed

lemma terminal_calls_steps: "terminal_calls (map2 StepCall js vs) = []"
  by (induction js arbitrary: vs) (auto simp add: terminal_calls_def split: list.splits)

lemma run_steps_append:
  "run_steps (xs @ ys) i v =
     (case run_steps xs i v of
        (Inl e, tr) \<Rightarrow> (Inl e, tr)
      | (Inr w, tr) \<Rightarrow> (case run_steps ys (i + length xs) w of (r, tr') \<Rightarrow> (r, tr @ tr')))"
  by (induction xs arbitrary: i v) (auto split: sum.splits prod.splits)

lemma run_steps_trace:
  "run_steps xs i v = (Inr w, tr) \<Longrightarrow>
     step_calls tr = [i..<i + length xs] \<and> terminal_calls tr = []"
proof (induction xs arbitrary: i v tr)
  case Nil
  then show ?case by (simp add: step_calls_def terminal_calls_def)
next
  case (Cons f fs)
  from Cons.prems obtain u tr' where u: "f v = Inr u"
    and r: "run_steps fs (Suc i) u = (Inr w, tr')" and tr: "tr = StepCall i v # tr'"
    by (auto split: sum.splits prod.splits)
  from Cons.IH [OF r] show ?case
    by (simp add: tr step_calls_def terminal_calls_def upt_rec)
qed

text \<open>
  C6. For every initial value \<open>v\<close> and steps \<open>f1..fn\<close>, the executor calls the steps
  in list order, step \<open>k\<close> receiving the output of step \<open>k - 1\<close> (the first
  receiving \<open>v\<close>), then calls the terminal consumer, once, with \<open>fn(...f1(v))\<close>, and
  returns what the consumer returns.
\<close>

theorem create_runs_steps_in_order:
  "create \<lparr>arrayStore = v, runLast = (map pure_step fs :: ('v \<Rightarrow> 'e + 'v) list)\<rparr> consumer
     = (Inr (consumer (fold (\<lambda>f. f) fs v)),
        map2 StepCall [0..<length fs] (step_inputs fs v) @ [TerminalCall (fold (\<lambda>f. f) fs v)])
   \<and> terminal_calls
        (snd (create \<lparr>arrayStore = v, runLast = (map pure_step fs :: ('v \<Rightarrow> 'e + 'v) list)\<rparr>
                consumer))
     = [fold (\<lambda>f. f) fs v]"
proof -
  let ?steps = "map pure_step fs :: ('v \<Rightarrow> 'e + 'v) list"
  have run: "create \<lparr>arrayStore = v, runLast = ?steps\<rparr> consumer
     = (Inr (consumer (fold (\<lambda>f. f) fs v)),
        map2 StepCall [0..<length fs] (step_inputs fs v) @ [TerminalCall (fold (\<lambda>f. f) fs v)])"
    by (simp add: create_def run_steps_pure)
  have "terminal_calls (map2 StepCall [0..<length fs] (step_inputs fs v)
          @ [TerminalCall (fold (\<lambda>f. f) fs v)]) = [fold (\<lambda>f. f) fs v]"
    using terminal_calls_steps [of "[0..<length fs]" "step_inputs fs v"]
    by (simp add: terminal_calls_def)
  with run show ?thesis by simp
qed

text \<open>
  C7. When the steps before step \<open>k\<close> succeed and step \<open>k\<close> fails with \<open>e\<close>, the
  caller gets the failure \<open>e\<close> itself; the steps called are those up to \<open>k\<close>, and
  the terminal consumer is not called.
\<close>

theorem create_stops_at_failing_step:
  assumes "fst (run_steps pre 0 v) = Inr w" and "bad w = Inl e"
  shows "create \<lparr>arrayStore = v, runLast = pre @ bad # post\<rparr> consumer
           = (Inl e, snd (run_steps pre 0 v) @ [StepCall (length pre) w])
     \<and> step_calls (snd (create \<lparr>arrayStore = v, runLast = pre @ bad # post\<rparr> consumer))
           = [0..<Suc (length pre)]
     \<and> terminal_calls (snd (create \<lparr>arrayStore = v, runLast = pre @ bad # post\<rparr> consumer))
           = []"
proof -
  obtain tr where r: "run_steps pre 0 v = (Inr w, tr)"
    using assms(1) by (cases "run_steps pre 0 v") simp
  have c: "create \<lparr>arrayStore = v, runLast = pre @ bad # post\<rparr> consumer
           = (Inl e, snd (run_steps pre 0 v) @ [StepCall (length pre) w])"
    by (simp add: create_def run_steps_append r assms(2))
  from run_steps_trace [OF r]
  have t: "step_calls tr = [0..<length pre]" "terminal_calls tr = []" by simp_all
  have s: "step_calls (snd (create \<lparr>arrayStore = v, runLast = pre @ bad # post\<rparr> consumer))
           = [0..<Suc (length pre)]"
    using t by (simp add: c r step_calls_def)
  have n: "terminal_calls (snd (create \<lparr>arrayStore = v, runLast = pre @ bad # post\<rparr> consumer))
           = []"
    using t by (simp add: c r terminal_calls_def)
  from c s n show ?thesis by blast
qed

theorem create_stops_at_failing_step_witness:
  "create \<lparr>arrayStore = (1 :: int),
           runLast = [pure_step (\<lambda>x. x + 1), (\<lambda>x. Inl TypeError), pure_step (\<lambda>x. x * 2)]\<rparr>
       (\<lambda>x. x)
     = (Inl TypeError, [StepCall 0 1, StepCall 1 2])
   \<and> step_calls (snd (create \<lparr>arrayStore = (1 :: int),
           runLast = [pure_step (\<lambda>x. x + 1), (\<lambda>x. Inl TypeError), pure_step (\<lambda>x. x * 2)]\<rparr>
       (\<lambda>x. x)))
     = [0, 1]
   \<and> terminal_calls (snd (create \<lparr>arrayStore = (1 :: int),
           runLast = [pure_step (\<lambda>x. x + 1), (\<lambda>x. Inl TypeError), pure_step (\<lambda>x. x * 2)]\<rparr>
       (\<lambda>x. x)))
     = []"
proof -
  let ?pre = "[pure_step (\<lambda>x. x + 1)] :: (int \<Rightarrow> error + int) list"
  let ?bad = "(\<lambda>x. Inl TypeError) :: int \<Rightarrow> error + int"
  let ?post = "[pure_step (\<lambda>x. x * 2)] :: (int \<Rightarrow> error + int) list"
  have h1: "fst (run_steps ?pre 0 1) = Inr 2" by (simp add: pure_step_def)
  have h2: "?bad 2 = Inl TypeError" by simp
  have tr: "snd (run_steps ?pre 0 1) = [StepCall 0 1]" by (simp add: pure_step_def)
  have upt: "[0..<Suc (length ?pre)] = [0, 1]" by (simp add: upt_rec)
  from create_stops_at_failing_step [where pre = ?pre and bad = ?bad and post = ?post
      and consumer = "\<lambda>x. x", OF h1 h2]
  show ?thesis unfolding tr upt by (simp add: step_calls_def terminal_calls_def)
qed

section \<open>Properties of the response formatter\<close>

text \<open>
  C9. With a non-empty array of callbacks, \<open>json\<close> hands the data and the callbacks
  to the executor, with a terminal consumer that sends \<open>{success, pipeData,
  statusCode}\<close>; when the steps succeed with \<open>w\<close>, the body sent carries \<open>w\<close> under
  \<open>pipeData\<close>. With no callbacks (\<open>undefined\<close>, \<open>null\<close> or an empty array), the
  executor is not used and the body sent is \<open>{success, data, statusCode}\<close> with the
  original data.
\<close>

theorem json_payload_key:
  "(pipeCallBacks opts = CbArray (f # fs) \<longrightarrow>
      json pipe_create opts
        = Inl (pipe_create \<lparr>arrayStore = data opts, runLast = f # fs\<rparr>
                 (\<lambda>pipeData. res_json (res_status (res opts) (statusCode_of opts))
                    (JObj [(''success'', JBool (success_of opts)), (''pipeData'', pipeData),
                           (''statusCode'', JNum (of_nat (statusCode_of opts)))]))))
   \<and> (pipeCallBacks opts = CbArray (f # fs) \<and> fst (run_steps (f # fs) 0 (data opts)) = Inr w \<longrightarrow>
      (\<exists>tr. json create opts
         = Inl (Inr (res_json (res_status (res opts) (statusCode_of opts))
                  (JObj [(''success'', JBool (success_of opts)), (''pipeData'', w),
                         (''statusCode'', JNum (of_nat (statusCode_of opts)))])), tr)))
   \<and> (pipeCallBacks opts = CbUndefined \<or> pipeCallBacks opts = CbNull
        \<or> pipeCallBacks opts = CbArray [] \<longrightarrow>
      json pipe_create opts
        = Inr (res_json (res_status (res opts) (statusCode_of opts))
                 (JObj [(''success'', JBool (success_of opts)), (''data'', data opts),
                        (''statusCode'', JNum (of_nat (statusCode_of opts)))])))"
proof (intro conjI impI)
  assume "pipeCallBacks opts = CbArray (f # fs)"
  then show "json pipe_create opts
        = Inl (pipe_create \<lparr>arrayStore = data opts, runLast = f # fs\<rparr>
                 (\<lambda>pipeData. res_json (res_status (res opts) (statusCode_of opts))
                    (JObj [(''success'', JBool (success_of opts)), (''pipeData'', pipeData),
                           (''statusCode'', JNum (of_nat (statusCode_of opts)))])))"
    by (simp add: json_def pipeCallBacks_of_def json_body_def)
next
  assume a: "pipeCallBacks opts = CbArray (f # fs)
      \<and> fst (run_steps (f # fs) 0 (data opts)) = Inr w"
  then obtain tr where r: "run_steps (f # fs) 0 (data opts) = (Inr w, tr)"
    by (cases "run_steps (f # fs) 0 (data opts)") simp
  from a have "json create opts
         = Inl (Inr (res_json (res_status (res opts) (statusCode_of opts))
                  (JObj [(''success'', JBool (success_of opts)), (''pipeData'', w),
                         (''statusCode'', JNum (of_nat (statusCode_of opts)))])),
                tr @ [TerminalCall w])"
    by (simp add: json_def pipeCallBacks_of_def json_body_def create_def r del: run_steps.simps)
  then show "\<exists>tr. json create opts
         = Inl (Inr (res_json (res_status (res opts) (statusCode_of opts))
                  (JObj [(''success'', JBool (success_of opts)), (''pipeData'', w),
                         (''statusCode'', JNum (of_nat (statusCode_of opts)))])), tr)"
    by blast
next
  assume "pipeCallBacks opts = CbUndefined \<or> pipeCallBacks opts = CbNull
        \<or> pipeCallBacks opts = CbArray []"
  then show "json pipe_create opts
        = Inr (res_json (res_status (res opts) (statusCode_of opts))
                 (JObj [(''success'', JBool (success_of opts)), (''data'', data opts),
                        (''statusCode'', JNum (of_nat (statusCode_of opts)))]))"
    by (auto simp add: json_def pipeCallBacks_of_def json_body_def)
qed

theorem json_payload_key_witness:
  "json create
       \<lparr>res = \<lparr>res_statusCode = 200, res_body = None\<rparr>, data = JNum 1,
        statusCode = Some 201, success = None,
        pipeCallBacks = CbArray [(\<lambda>v. Inr (JArr [v])) :: jsval \<Rightarrow> error + jsval]\<rparr>
     = Inl (Inr \<lparr>res_statusCode = 201,
                 res_body = Some (JObj [(''success'', JBool True), (''pipeData'', JArr [JNum 1]),
                                        (''statusCode'', JNum 201)])\<rparr>,
            [StepCall 0 (JNum 1), TerminalCall (JArr [JNum 1])])
   \<and> json (create :: (error, jsval) pipe_args \<Rightarrow> (jsval \<Rightarrow> response) \<Rightarrow> _)
       \<lparr>res = \<lparr>res_statusCode = 200, res_body = None\<rparr>, data = JNum 1,
        statusCode = None, success = None, pipeCallBacks = CbUndefined\<rparr>
     = Inr \<lparr>res_statusCode = 200,
            res_body = Some (JObj [(''success'', JBool True), (''data'', JNum 1),
                                   (''statusCode'', JNum 200)])\<rparr>"
proof -
  let ?step = "(\<lambda>v. Inr (JArr [v])) :: jsval \<Rightarrow> error + jsval"
  let ?piped = "\<lparr>res = \<lparr>res_statusCode = 200, res_body = None\<rparr>, data = JNum 1,
        statusCode = Some 201, success = None, pipeCallBacks = CbArray [?step]\<rparr>"
  let ?plain = "\<lparr>res = \<lparr>res_statusCode = 200, res_body = None\<rparr>, data = JNum 1,
        statusCode = None, success = None, pipeCallBacks = (CbUndefined :: error callbacks)\<rparr>"
  let ?sent = "\<lparr>res_statusCode = 201,
                 res_body = Some (JObj [(''success'', JBool True), (''pipeData'', JArr [JNum 1]),
                                        (''statusCode'', JNum 201)])\<rparr>"
  have run: "pipeCallBacks ?piped = CbArray [?step]
      \<and> fst (run_steps [?step] 0 (data ?piped)) = Inr (JArr [JNum 1])"
    by simp
  have "\<exists>tr. json create ?piped = Inl (Inr ?sent, tr)"
    using json_payload_key [where opts = ?piped and f = ?step and fs = "[]"
        and w = "JArr [JNum 1]", THEN conjunct2, THEN conjunct1] run
    by (simp add: res_json_def res_status_def statusCode_of_def success_of_def)
  then obtain tr where sent: "json create ?piped = Inl (Inr ?sent, tr)" ..
  have "json create ?piped
      = Inl (create \<lparr>arrayStore = JNum 1, runLast = [?step]\<rparr>
               (\<lambda>pipeData. res_json (res_status (res ?piped) (statusCode_of ?piped))
                   (JObj [(''success'', JBool (success_of ?piped)), (''pipeData'', pipeData),
                          (''statusCode'', JNum (of_nat (statusCode_of ?piped)))])))"
    using json_payload_key [where opts = ?piped and f = ?step and fs = "[]"
        and pipe_create = create, THEN conjunct1]
    by simp
  with sent have "tr = [StepCall 0 (JNum 1), TerminalCall (JArr [JNum 1])]"
    by (simp add: create_def)
  with sent have a: "json create ?piped
      = Inl (Inr ?sent, [StepCall 0 (JNum 1), TerminalCall (JArr [JNum 1])])"
    by simp
  have b: "json (create :: (error, jsval) pipe_args \<Rightarrow> (jsval \<Rightarrow> response) \<Rightarrow> _) ?plain
     = Inr \<lparr>res_statusCode = 200,
            res_body = Some (JObj [(''success'', JBool True), (''data'', JNum 1),
                                   (''statusCode'', JNum 200)])\<rparr>"
    using json_payload_key [where opts = ?plain and pipe_create = create,
        THEN conjunct2, THEN conjunct2]
    by (simp add: res_json_def res_status_def statusCode_of_def success_of_def)
  from a b show ?thesis by (rule conjI)
qed

end
